theory Spec2Isabelle
  imports Main
begin

section \<open>The header \<open>crates/wdk-sys/src/input.h\<close>\<close>

text \<open>
  \<open>input.h\<close> is the header handed to the binding generator. It consists of conditional
  inclusion directives, \<open>#include\<close> lines and two \<open>typedef\<close> declarations. The header is
  embedded as a syntax tree of its lines; what it means is given by an evaluator of the
  conditional directives and by the record layout rules of the Windows x64 C ABI.
\<close>

subsection \<open>Conditional inclusion\<close>

text \<open>The macro names that are defined when the header is processed.\<close>

type_synonym symbols = "string set"

text \<open>Controlling expressions of \<open>#if\<close>: \<open>defined(X)\<close> and \<open>||\<close>.\<close>

datatype pp_cond = Defined string | Or pp_cond pp_cond

fun eval_cond :: "symbols \<Rightarrow> pp_cond \<Rightarrow> bool" where
  "eval_cond S (Defined x) = (x \<in> S)"
| "eval_cond S (Or a b) = (eval_cond S a \<or> eval_cond S b)"

subsection \<open>Declarations\<close>

text \<open>The four integer types the header uses.\<close>

datatype base_type = UnsignedChar | UnsignedShort | UnsignedLong | UnsignedInt64

text \<open>
  A type is an integer type, a \<open>struct\<close> or a \<open>union\<close>. A member of a struct or union is
  a named member (\<open>T name;\<close>), a bit-field (\<open>T name : width;\<close>) or an anonymous struct or
  union (\<open>struct { ... };\<close>).
\<close>

datatype ctype = Base base_type | StructT "member list" | UnionT "member list"
  and member = Member ctype string | BitMember base_type string nat | AnonMember ctype

text \<open>A declarator of a typedef: \<open>NAME\<close> or \<open>*NAME\<close>.\<close>

datatype declarator = Name string | PointerTo string

text \<open>\<open>#include <h>\<close> and \<open>#include "h"\<close>.\<close>

datatype include_form = Angle | Quoted

text \<open>
  What survives preprocessing: an inclusion (the included headers are external and stay
  opaque) or \<open>typedef union TAG { ... } declarators;\<close>.
\<close>

datatype item = Include include_form string | TypedefUnion string ctype "declarator list"

text \<open>
  A line of a header: an item, \<open>#error\<close>, \<open>#if c ... #endif\<close> or
  \<open>#if c ... #else ... #endif\<close>.
\<close>

datatype line = Item item | PError string | PIf pp_cond "line list"
  | PIfElse pp_cond "line list" "line list"

text \<open>
  Preprocessing keeps the lines of the groups whose condition holds, in order. Reaching
  an \<open>#error\<close> stops it with the message (\<open>Inl\<close>).
\<close>

fun preprocess :: "symbols \<Rightarrow> line list \<Rightarrow> string + item list"
  and preprocess_line :: "symbols \<Rightarrow> line \<Rightarrow> string + item list" where
  "preprocess S [] = Inr []"
| "preprocess S (l # ls) =
     (case preprocess_line S l of
        Inl e \<Rightarrow> Inl e
      | Inr xs \<Rightarrow> (case preprocess S ls of Inl e \<Rightarrow> Inl e | Inr ys \<Rightarrow> Inr (xs @ ys)))"
| "preprocess_line S (Item i) = Inr [i]"
| "preprocess_line S (PError m) = Inl m"
| "preprocess_line S (PIf c body) = (if eval_cond S c then preprocess S body else Inr [])"
| "preprocess_line S (PIfElse c body alt) =
     (if eval_cond S c then preprocess S body else preprocess S alt)"

subsection \<open>The contents of the header\<close>

text \<open>Lines 14 to 47: \<open>typedef union _KGDTENTRY64 { ... } KGDTENTRY64, *PKGDTENTRY64;\<close>\<close>

definition KGDTENTRY64 :: ctype where
  "KGDTENTRY64 =
     UnionT
      [AnonMember (StructT
         [Member (Base UnsignedShort) ''LimitLow'',
          Member (Base UnsignedShort) ''BaseLow'',
          AnonMember (UnionT
            [Member (StructT
               [Member (Base UnsignedChar) ''BaseMiddle'',
                Member (Base UnsignedChar) ''Flags1'',
                Member (Base UnsignedChar) ''Flags2'',
                Member (Base UnsignedChar) ''BaseHigh'']) ''Bytes'',
             Member (StructT
               [BitMember UnsignedLong ''BaseMiddle'' 8,
                BitMember UnsignedLong ''Type'' 5,
                BitMember UnsignedLong ''Dpl'' 2,
                BitMember UnsignedLong ''Present'' 1,
                BitMember UnsignedLong ''LimitHigh'' 4,
                BitMember UnsignedLong ''System'' 1,
                BitMember UnsignedLong ''LongMode'' 1,
                BitMember UnsignedLong ''DefaultBig'' 1,
                BitMember UnsignedLong ''Granularity'' 1,
                BitMember UnsignedLong ''BaseHigh'' 8]) ''Bits'']),
          Member (Base UnsignedLong) ''BaseUpper'',
          Member (Base UnsignedLong) ''MustBeZero'']),
       Member (Base UnsignedInt64) ''Alignment'']"

text \<open>Lines 49 to 65: \<open>typedef union _KIDTENTRY64 { ... } KIDTENTRY64, *PKIDTENTRY64;\<close>\<close>

definition KIDTENTRY64 :: ctype where
  "KIDTENTRY64 =
     UnionT
      [AnonMember (StructT
         [Member (Base UnsignedShort) ''OffsetLow'',
          Member (Base UnsignedShort) ''Selector'',
          BitMember UnsignedShort ''IstIndex'' 3,
          BitMember UnsignedShort ''Reserved0'' 5,
          BitMember UnsignedShort ''Type'' 5,
          BitMember UnsignedShort ''Dpl'' 2,
          BitMember UnsignedShort ''Present'' 1,
          Member (Base UnsignedShort) ''OffsetMiddle'',
          Member (Base UnsignedLong) ''OffsetHigh'',
          Member (Base UnsignedLong) ''Reserved1'']),
       Member (Base UnsignedInt64) ''Alignment'']"

text \<open>The whole file, lines 4 to 72.\<close>

definition input_h :: "line list" where
  "input_h =
     [PIfElse (Defined ''UMDF_VERSION_MAJOR'')
        [Item (Include Angle ''windows.h'')]
        [Item (Include Quoted ''ntifs.h''),
         Item (Include Quoted ''ntddk.h''),
         Item (TypedefUnion ''_KGDTENTRY64'' KGDTENTRY64
                 [Name ''KGDTENTRY64'', PointerTo ''PKGDTENTRY64'']),
         Item (TypedefUnion ''_KIDTENTRY64'' KIDTENTRY64
                 [Name ''KIDTENTRY64'', PointerTo ''PKIDTENTRY64''])],
      PIf (Or (Defined ''KMDF_VERSION_MAJOR'') (Defined ''UMDF_VERSION_MAJOR''))
        [Item (Include Angle ''wdf.h'')]]"

subsection \<open>Reading the preprocessed output\<close>

text \<open>The names of the headers included, in order.\<close>

fun included_headers :: "item list \<Rightarrow> string list" where
  "included_headers [] = []"
| "included_headers (Include f h # xs) = h # included_headers xs"
| "included_headers (TypedefUnion tag t ds # xs) = included_headers xs"

text \<open>The types that the typedefs of the output define under the name \<open>n\<close>, in order.\<close>

fun definitions_of :: "string \<Rightarrow> item list \<Rightarrow> ctype list" where
  "definitions_of n [] = []"
| "definitions_of n (Include f h # xs) = definitions_of n xs"
| "definitions_of n (TypedefUnion tag t ds # xs) =
     (if Name n \<in> set ds then t # definitions_of n xs else definitions_of n xs)"

subsection \<open>Record layout\<close>

text \<open>
  The headers are those of the Windows Driver Kit, so the layout is that of the Windows
  x64 ABI: \<open>char\<close>, \<open>short\<close>, \<open>long\<close> and \<open>__int64\<close> have 1, 2, 4 and 8 bytes, and an
  integer type is aligned to its size.
\<close>

fun sizeof_base :: "base_type \<Rightarrow> nat" where
  "sizeof_base UnsignedChar = 1"
| "sizeof_base UnsignedShort = 2"
| "sizeof_base UnsignedLong = 4"
| "sizeof_base UnsignedInt64 = 8"

definition align_up :: "nat \<Rightarrow> nat \<Rightarrow> nat" where
  "align_up n a = ((n + a - 1) div a) * a"

text \<open>
  Where a member lies: its name, the byte offset of its storage, the first bit it takes
  there, and the number of bits it takes. Members of a named struct member are qualified
  with its name (\<open>Bits.Type\<close>); members of an anonymous struct or union belong to the
  enclosing type.
\<close>

type_synonym placement = "string \<times> nat \<times> nat \<times> nat"

fun shift :: "nat \<Rightarrow> placement \<Rightarrow> placement" where
  "shift d (n, off, pos, len) = (n, d + off, pos, len)"

fun qualify :: "string \<Rightarrow> placement \<Rightarrow> placement" where
  "qualify q (n, off, pos, len) = (q @ ''.'' @ n, off, pos, len)"

text \<open>
  The state of laying out one struct or union: the first free byte, the end of the last
  byte in use, the open bit-field storage unit (its byte offset, its size in bytes, the
  bits already taken), the alignment so far, and the members placed so far.
\<close>

record lstate =
  cursor :: nat
  extent :: nat
  open_unit :: "(nat \<times> nat \<times> nat) option"
  align :: nat
  placed :: "placement list"

definition start :: lstate where
  "start = \<lparr>cursor = 0, extent = 0, open_unit = None, align = 1, placed = []\<rparr>"

text \<open>
  A member that is not a bit-field closes the open storage unit and goes to the next
  offset that is a multiple of its alignment; in a union every member is at offset 0.
\<close>

definition place :: "bool \<Rightarrow> nat \<Rightarrow> nat \<Rightarrow> (nat \<Rightarrow> placement list) \<Rightarrow> lstate \<Rightarrow> lstate" where
  "place u sz al ps s =
     (let off = (if u then 0 else align_up (cursor s) al) in
      \<lparr>cursor = (if u then 0 else off + sz),
       extent = max (extent s) (off + sz),
       open_unit = None,
       align = max (align s) al,
       placed = placed s @ ps off\<rparr>)"

definition place_member :: "bool \<Rightarrow> string \<Rightarrow> nat \<times> nat \<times> placement list \<Rightarrow> lstate \<Rightarrow> lstate" where
  "place_member u n l s =
     (case l of (sz, al, sub) \<Rightarrow>
        place u sz al (\<lambda>off. (n, off, 0, 8 * sz) # map (shift off \<circ> qualify n) sub) s)"

definition place_anon :: "bool \<Rightarrow> nat \<times> nat \<times> placement list \<Rightarrow> lstate \<Rightarrow> lstate" where
  "place_anon u l s = (case l of (sz, al, sub) \<Rightarrow> place u sz al (\<lambda>off. map (shift off) sub) s)"

text \<open>
  A bit-field goes into the open storage unit when that unit has the size of the
  bit-field's type and still has room for it; otherwise a new unit of the type's size is
  allocated like a member of that type. (Widths are taken to be between 1 and the width
  of the type, as C requires of a named bit-field.)
\<close>

definition fits :: "bool \<Rightarrow> nat \<Rightarrow> nat \<Rightarrow> lstate \<Rightarrow> bool" where
  "fits u sz w s =
     (case open_unit s of
        None \<Rightarrow> False
      | Some (uoff, usz, used) \<Rightarrow> \<not> u \<and> usz = sz \<and> used + w \<le> 8 * sz)"

definition place_bits :: "bool \<Rightarrow> base_type \<Rightarrow> string \<Rightarrow> nat \<Rightarrow> lstate \<Rightarrow> lstate" where
  "place_bits u b n w s =
     (let sz = sizeof_base b in
      if fits u sz w s then
        (case open_unit s of
           None \<Rightarrow> s
         | Some (uoff, usz, used) \<Rightarrow>
             s\<lparr>open_unit := Some (uoff, usz, used + w), placed := placed s @ [(n, uoff, used, w)]\<rparr>)
      else
        (let s' = place u sz sz (\<lambda>off. [(n, off, 0, w)]) s in
         s'\<lparr>open_unit := Some (if u then 0 else cursor s' - sz, sz, w)\<rparr>))"

text \<open>The size is the extent, padded to a multiple of the alignment.\<close>

definition finish :: "lstate \<Rightarrow> nat \<times> nat \<times> placement list" where
  "finish s = (align_up (extent s) (align s), align s, placed s)"

text \<open>\<open>layout t\<close> is the size of \<open>t\<close>, its alignment, and where its members lie.\<close>

fun layout :: "ctype \<Rightarrow> nat \<times> nat \<times> placement list"
  and members :: "bool \<Rightarrow> member list \<Rightarrow> lstate \<Rightarrow> lstate" where
  "layout (Base b) = (sizeof_base b, sizeof_base b, [])"
| "layout (StructT ms) = finish (members False ms start)"
| "layout (UnionT ms) = finish (members True ms start)"
| "members u [] s = s"
| "members u (Member t n # ms) s = members u ms (place_member u n (layout t) s)"
| "members u (BitMember b n w # ms) s = members u ms (place_bits u b n w s)"
| "members u (AnonMember t # ms) s = members u ms (place_anon u (layout t) s)"

definition sizeof :: "ctype \<Rightarrow> nat" where
  "sizeof t = fst (layout t)"

definition alignof :: "ctype \<Rightarrow> nat" where
  "alignof t = fst (snd (layout t))"

definition fields :: "ctype \<Rightarrow> placement list" where
  "fields t = snd (snd (layout t))"

subsection \<open>Looking into a type\<close>

text \<open>
  The declared type of the member \<open>n\<close> of a struct or union; the members of an anonymous
  member are members of the enclosing type. A bit-field has the integer type it is
  declared with.
\<close>

fun member_type :: "string \<Rightarrow> ctype \<Rightarrow> ctype option"
  and find_member :: "string \<Rightarrow> member list \<Rightarrow> ctype option" where
  "member_type n (Base b) = None"
| "member_type n (StructT ms) = find_member n ms"
| "member_type n (UnionT ms) = find_member n ms"
| "find_member n [] = None"
| "find_member n (Member t m # ms) = (if m = n then Some t else find_member n ms)"
| "find_member n (BitMember b m w # ms) = (if m = n then Some (Base b) else find_member n ms)"
| "find_member n (AnonMember t # ms) =
     (case member_type n t of Some r \<Rightarrow> Some r | None \<Rightarrow> find_member n ms)"

text \<open>
  The bit-fields of a struct or union, in the order of declaration, with their declared
  type and width; those of an anonymous member are included.
\<close>

fun bit_fields :: "ctype \<Rightarrow> (base_type \<times> string \<times> nat) list"
  and bit_members :: "member list \<Rightarrow> (base_type \<times> string \<times> nat) list" where
  "bit_fields (Base b) = []"
| "bit_fields (StructT ms) = bit_members ms"
| "bit_fields (UnionT ms) = bit_members ms"
| "bit_members [] = []"
| "bit_members (Member t m # ms) = bit_members ms"
| "bit_members (BitMember b m w # ms) = (b, m, w) # bit_members ms"
| "bit_members (AnonMember t # ms) = bit_fields t @ bit_members ms"

text \<open>
  The bits a placed member takes, counted from the start of the type: the first bit and
  the bit after the last. A member \<open>q\<close> lies over a member \<open>p\<close> when every bit of \<open>p\<close> is
  a bit of \<open>q\<close>.
\<close>

definition bit_range :: "placement \<Rightarrow> nat \<times> nat" where
  "bit_range p = (case p of (n, off, pos, len) \<Rightarrow> (8 * off + pos, 8 * off + pos + len))"

definition lies_over :: "placement \<Rightarrow> placement \<Rightarrow> bool" where
  "lies_over q p =
     (fst (bit_range q) \<le> fst (bit_range p) \<and> snd (bit_range p) \<le> snd (bit_range q))"

text \<open>
  The layers of the output: the base headers of the target come first (0), then the
  declarations that fill gaps of the base headers (1), then the framework header
  \<open>wdf.h\<close> (2).
\<close>

fun layer :: "item \<Rightarrow> nat" where
  "layer (Include f h) = (if h = ''wdf.h'' then 2 else 0)"
| "layer (TypedefUnion tag t ds) = 1"

section \<open>What the header yields\<close>

subsection \<open>Evaluating the header\<close>

text \<open>
  For every set of defined symbols preprocessing succeeds: one group of the first
  conditional, then the optional framework header.
\<close>

lemma preprocess_input_h:
  "preprocess S input_h =
     Inr ((if ''UMDF_VERSION_MAJOR'' \<in> S then [Include Angle ''windows.h'']
           else [Include Quoted ''ntifs.h'', Include Quoted ''ntddk.h'',
                 TypedefUnion ''_KGDTENTRY64'' KGDTENTRY64
                   [Name ''KGDTENTRY64'', PointerTo ''PKGDTENTRY64''],
                 TypedefUnion ''_KIDTENTRY64'' KIDTENTRY64
                   [Name ''KIDTENTRY64'', PointerTo ''PKIDTENTRY64'']])
          @ (if ''KMDF_VERSION_MAJOR'' \<in> S \<or> ''UMDF_VERSION_MAJOR'' \<in> S
             then [Include Angle ''wdf.h''] else []))"
  by (simp add: input_h_def)

lemmas layout_defs = place_member_def place_anon_def place_def place_bits_def
  fits_def finish_def start_def align_up_def Let_def

lemma layout_KGDTENTRY64:
  "layout KGDTENTRY64 =
    (16, 8,
     [(''LimitLow'', 0, 0, 16), (''BaseLow'', 2, 0, 16),
      (''Bytes'', 4, 0, 32),
      (''Bytes.BaseMiddle'', 4, 0, 8), (''Bytes.Flags1'', 5, 0, 8),
      (''Bytes.Flags2'', 6, 0, 8), (''Bytes.BaseHigh'', 7, 0, 8),
      (''Bits'', 4, 0, 32),
      (''Bits.BaseMiddle'', 4, 0, 8), (''Bits.Type'', 4, 8, 5), (''Bits.Dpl'', 4, 13, 2),
      (''Bits.Present'', 4, 15, 1), (''Bits.LimitHigh'', 4, 16, 4),
      (''Bits.System'', 4, 20, 1), (''Bits.LongMode'', 4, 21, 1),
      (''Bits.DefaultBig'', 4, 22, 1), (''Bits.Granularity'', 4, 23, 1),
      (''Bits.BaseHigh'', 4, 24, 8),
      (''BaseUpper'', 8, 0, 32), (''MustBeZero'', 12, 0, 32),
      (''Alignment'', 0, 0, 64)])"
  by (simp add: KGDTENTRY64_def layout_defs)

lemma layout_KIDTENTRY64:
  "layout KIDTENTRY64 =
    (16, 8,
     [(''OffsetLow'', 0, 0, 16), (''Selector'', 2, 0, 16),
      (''IstIndex'', 4, 0, 3), (''Reserved0'', 4, 3, 5), (''Type'', 4, 8, 5),
      (''Dpl'', 4, 13, 2), (''Present'', 4, 15, 1),
      (''OffsetMiddle'', 6, 0, 16), (''OffsetHigh'', 8, 0, 32),
      (''Reserved1'', 12, 0, 32), (''Alignment'', 0, 0, 64)])"
  by (simp add: KIDTENTRY64_def layout_defs)

lemma sizeof_KGDTENTRY64: "sizeof KGDTENTRY64 = 16"
  by (simp add: sizeof_def layout_KGDTENTRY64)

lemma sizeof_KIDTENTRY64: "sizeof KIDTENTRY64 = 16"
  by (simp add: sizeof_def layout_KIDTENTRY64)

lemma alignof_KGDTENTRY64: "alignof KGDTENTRY64 = 8"
  by (simp add: alignof_def layout_KGDTENTRY64)

lemma alignof_KIDTENTRY64: "alignof KIDTENTRY64 = 8"
  by (simp add: alignof_def layout_KIDTENTRY64)

lemma Alignment_KGDTENTRY64: "member_type ''Alignment'' KGDTENTRY64 = Some (Base UnsignedInt64)"
  by (simp add: KGDTENTRY64_def)

lemma Alignment_KIDTENTRY64: "member_type ''Alignment'' KIDTENTRY64 = Some (Base UnsignedInt64)"
  by (simp add: KIDTENTRY64_def)

lemma Bytes_KGDTENTRY64:
  "member_type ''Bytes'' KGDTENTRY64 =
     Some (StructT
       [Member (Base UnsignedChar) ''BaseMiddle'',
        Member (Base UnsignedChar) ''Flags1'',
        Member (Base UnsignedChar) ''Flags2'',
        Member (Base UnsignedChar) ''BaseHigh''])"
  by (simp add: KGDTENTRY64_def)

lemma Bits_KGDTENTRY64:
  "member_type ''Bits'' KGDTENTRY64 =
     Some (StructT
       [BitMember UnsignedLong ''BaseMiddle'' 8,
        BitMember UnsignedLong ''Type'' 5,
        BitMember UnsignedLong ''Dpl'' 2,
        BitMember UnsignedLong ''Present'' 1,
        BitMember UnsignedLong ''LimitHigh'' 4,
        BitMember UnsignedLong ''System'' 1,
        BitMember UnsignedLong ''LongMode'' 1,
        BitMember UnsignedLong ''DefaultBig'' 1,
        BitMember UnsignedLong ''Granularity'' 1,
        BitMember UnsignedLong ''BaseHigh'' 8])"
  by (simp add: KGDTENTRY64_def)

lemma sizeof_Base: "sizeof (Base b) = sizeof_base b"
  by (simp add: sizeof_def)

lemma alignof_Base: "alignof (Base b) = sizeof_base b"
  by (simp add: alignof_def)

subsection \<open>The sizes of the two declarations\<close>

text \<open>
  Claim C1, as the code has it. Whenever \<open>UMDF_VERSION_MAJOR\<close> is not defined, the
  output defines \<open>KGDTENTRY64\<close> and \<open>KIDTENTRY64\<close>, and the size of each is 16 bytes, two
  64-bit units: the members \<open>LimitLow\<close>, \<open>BaseLow\<close>, the four bytes of the inner union,
  \<open>BaseUpper\<close> and \<open>MustBeZero\<close> take 2 + 2 + 4 + 4 + 4 bytes, and so do the members of
  \<open>KIDTENTRY64\<close>.
\<close>

theorem gap_filled_size_16:
  "''UMDF_VERSION_MAJOR'' \<notin> S \<Longrightarrow>
   \<exists>out. preprocess S input_h = Inr out
     \<and> map sizeof (definitions_of ''KGDTENTRY64'' out) = [16]
     \<and> map sizeof (definitions_of ''KIDTENTRY64'' out) = [16]"
  by (simp add: preprocess_input_h sizeof_KGDTENTRY64 sizeof_KIDTENTRY64)

text \<open>The theorem at the configuration of a kernel-mode framework driver.\<close>

theorem gap_filled_size_16_witness:
  "''UMDF_VERSION_MAJOR'' \<notin> {''KMDF_VERSION_MAJOR''}
   \<and> (\<exists>out. preprocess {''KMDF_VERSION_MAJOR''} input_h = Inr out
     \<and> map sizeof (definitions_of ''KGDTENTRY64'' out) = [16]
     \<and> map sizeof (definitions_of ''KIDTENTRY64'' out) = [16])"
  using gap_filled_size_16 [of "{''KMDF_VERSION_MAJOR''}"] by simp

text \<open>
  With no symbol defined the two declarations are emitted, and neither of them has a
  size of 8 bytes.
\<close>

theorem gap_filled_size_not_8:
  "preprocess {} input_h =
     Inr [Include Quoted ''ntifs.h'', Include Quoted ''ntddk.h'',
          TypedefUnion ''_KGDTENTRY64'' KGDTENTRY64
            [Name ''KGDTENTRY64'', PointerTo ''PKGDTENTRY64''],
          TypedefUnion ''_KIDTENTRY64'' KIDTENTRY64
            [Name ''KIDTENTRY64'', PointerTo ''PKIDTENTRY64'']]
   \<and> sizeof KGDTENTRY64 \<noteq> 8 \<and> sizeof KIDTENTRY64 \<noteq> 8"
  by (simp add: preprocess_input_h sizeof_KGDTENTRY64 sizeof_KIDTENTRY64)

subsection \<open>The member \<open>Alignment\<close>\<close>

text \<open>
  Claim C2, as the code has it. In both unions the last member \<open>Alignment\<close> is an
  \<open>unsigned __int64\<close> of 8 bytes at offset 0, and the union has 16 bytes: the member
  lies over the first half of the structure. The alignment of the union is the
  alignment of that member, 8 bytes.
\<close>

theorem Alignment_member_half:
  "member_type ''Alignment'' KGDTENTRY64 = Some (Base UnsignedInt64)
   \<and> member_type ''Alignment'' KIDTENTRY64 = Some (Base UnsignedInt64)
   \<and> sizeof (Base UnsignedInt64) = 8
   \<and> map_of (fields KGDTENTRY64) ''Alignment'' = Some (0, 0, 64)
   \<and> map_of (fields KIDTENTRY64) ''Alignment'' = Some (0, 0, 64)
   \<and> sizeof KGDTENTRY64 = 16 \<and> sizeof KIDTENTRY64 = 16
   \<and> alignof (Base UnsignedInt64) = 8
   \<and> alignof KGDTENTRY64 = 8 \<and> alignof KIDTENTRY64 = 8"
  by (simp add: Alignment_KGDTENTRY64 Alignment_KIDTENTRY64 sizeof_Base alignof_Base
      fields_def layout_KGDTENTRY64 layout_KIDTENTRY64 sizeof_KGDTENTRY64 sizeof_KIDTENTRY64
      alignof_KGDTENTRY64 alignof_KIDTENTRY64)

text \<open>
  In neither of the two unions is the size of the member \<open>Alignment\<close> the size of the
  union.
\<close>

theorem Alignment_member_not_whole:
  "map_option sizeof (member_type ''Alignment'' KGDTENTRY64) \<noteq> Some (sizeof KGDTENTRY64)
   \<and> map_option sizeof (member_type ''Alignment'' KIDTENTRY64) \<noteq> Some (sizeof KIDTENTRY64)"
  by (simp add: Alignment_KGDTENTRY64 Alignment_KIDTENTRY64 sizeof_Base
      sizeof_KGDTENTRY64 sizeof_KIDTENTRY64)

subsection \<open>How often the two types are defined\<close>

text \<open>
  Claim C3. For every set of defined symbols the output holds exactly one definition of
  \<open>KGDTENTRY64\<close> and one of \<open>KIDTENTRY64\<close> when \<open>UMDF_VERSION_MAJOR\<close> is not defined, and
  none of either when it is defined; so never two.
\<close>

theorem one_definition_or_none:
  "\<exists>out. preprocess S input_h = Inr out
     \<and> length (definitions_of ''KGDTENTRY64'' out)
         = (if ''UMDF_VERSION_MAJOR'' \<in> S then 0 else 1)
     \<and> length (definitions_of ''KIDTENTRY64'' out)
         = (if ''UMDF_VERSION_MAJOR'' \<in> S then 0 else 1)"
  by (simp add: preprocess_input_h)

text \<open>The theorem in the kernel-mode branch and in the user-mode branch.\<close>

theorem one_definition_or_none_witness:
  "(\<exists>out. preprocess {''KMDF_VERSION_MAJOR''} input_h = Inr out
     \<and> length (definitions_of ''KGDTENTRY64'' out) = 1
     \<and> length (definitions_of ''KIDTENTRY64'' out) = 1)
   \<and> (\<exists>out. preprocess {''UMDF_VERSION_MAJOR''} input_h = Inr out
     \<and> length (definitions_of ''KGDTENTRY64'' out) = 0
     \<and> length (definitions_of ''KIDTENTRY64'' out) = 0)"
  using one_definition_or_none [of "{''KMDF_VERSION_MAJOR''}"]
    one_definition_or_none [of "{''UMDF_VERSION_MAJOR''}"]
  by simp

subsection \<open>The base headers\<close>

text \<open>
  Claim C4. The headers included other than \<open>wdf.h\<close> are \<open>windows.h\<close> when
  \<open>UMDF_VERSION_MAJOR\<close> is defined, and \<open>ntifs.h\<close> followed by \<open>ntddk.h\<close> when it is not
  defined, whatever else is defined: for every set of symbols exactly one of the two base
  sets is selected.
\<close>

theorem base_selection:
  "\<exists>out. preprocess S input_h = Inr out
     \<and> removeAll ''wdf.h'' (included_headers out)
         = (if ''UMDF_VERSION_MAJOR'' \<in> S then [''windows.h''] else [''ntifs.h'', ''ntddk.h''])"
  by (simp add: preprocess_input_h)

text \<open>The theorem with no symbol defined and with both symbols defined.\<close>

theorem base_selection_witness:
  "(\<exists>out. preprocess {} input_h = Inr out
     \<and> removeAll ''wdf.h'' (included_headers out) = [''ntifs.h'', ''ntddk.h''])
   \<and> (\<exists>out. preprocess {''KMDF_VERSION_MAJOR'', ''UMDF_VERSION_MAJOR''} input_h = Inr out
     \<and> removeAll ''wdf.h'' (included_headers out) = [''windows.h''])"
  using base_selection [of "{}"]
    base_selection [of "{''KMDF_VERSION_MAJOR'', ''UMDF_VERSION_MAJOR''}"]
  by simp

subsection \<open>The framework header\<close>

text \<open>
  Claim C5. For every set of defined symbols, \<open>wdf.h\<close> is among the headers included if
  and only if \<open>KMDF_VERSION_MAJOR\<close> or \<open>UMDF_VERSION_MAJOR\<close> is defined; the condition does
  not depend on the branch taken for the base headers, and with neither symbol defined
  \<open>wdf.h\<close> is absent.
\<close>

theorem wdf_included_iff:
  "\<exists>out. preprocess S input_h = Inr out
     \<and> (''wdf.h'' \<in> set (included_headers out))
         = (''KMDF_VERSION_MAJOR'' \<in> S \<or> ''UMDF_VERSION_MAJOR'' \<in> S)"
  by (simp add: preprocess_input_h)

text \<open>
  The theorem in the kernel-mode branch with and without the framework, and in the
  user-mode branch.
\<close>

theorem wdf_included_iff_witness:
  "(\<exists>out. preprocess {''KMDF_VERSION_MAJOR''} input_h = Inr out
     \<and> ''wdf.h'' \<in> set (included_headers out))
   \<and> (\<exists>out. preprocess {''UMDF_VERSION_MAJOR''} input_h = Inr out
     \<and> ''wdf.h'' \<in> set (included_headers out))
   \<and> (\<exists>out. preprocess {} input_h = Inr out
     \<and> ''wdf.h'' \<notin> set (included_headers out))"
  using wdf_included_iff [of "{''KMDF_VERSION_MAJOR''}"]
    wdf_included_iff [of "{''UMDF_VERSION_MAJOR''}"]
    wdf_included_iff [of "{}"]
  by simp

subsection \<open>The order of the layers\<close>

text \<open>
  Claim C6. In the output the base headers come first, the two gap-filling declarations
  come after them and only when \<open>UMDF_VERSION_MAJOR\<close> is not defined (after \<open>ntifs.h\<close> and
  \<open>ntddk.h\<close>), and \<open>wdf.h\<close>, when it is included, comes last, after every base header and
  after both declarations.
\<close>

theorem layers_in_order:
  "\<exists>out. preprocess S input_h = Inr out
     \<and> sorted (map layer out)
     \<and> map layer out
         = (if ''UMDF_VERSION_MAJOR'' \<in> S then [0] else [0, 0, 1, 1])
           @ (if ''KMDF_VERSION_MAJOR'' \<in> S \<or> ''UMDF_VERSION_MAJOR'' \<in> S then [2] else [])
     \<and> included_headers out
         = (if ''UMDF_VERSION_MAJOR'' \<in> S then [''windows.h''] else [''ntifs.h'', ''ntddk.h''])
           @ (if ''KMDF_VERSION_MAJOR'' \<in> S \<or> ''UMDF_VERSION_MAJOR'' \<in> S
              then [''wdf.h''] else [])"
  by (simp add: preprocess_input_h)

text \<open>The theorem for a kernel-mode framework driver and for a user-mode driver.\<close>

theorem layers_in_order_witness:
  "(\<exists>out. preprocess {''KMDF_VERSION_MAJOR''} input_h = Inr out
     \<and> sorted (map layer out) \<and> map layer out = [0, 0, 1, 1, 2]
     \<and> included_headers out = [''ntifs.h'', ''ntddk.h'', ''wdf.h''])
   \<and> (\<exists>out. preprocess {''UMDF_VERSION_MAJOR''} input_h = Inr out
     \<and> sorted (map layer out) \<and> map layer out = [0, 2]
     \<and> included_headers out = [''windows.h'', ''wdf.h''])"
  using layers_in_order [of "{''KMDF_VERSION_MAJOR''}"]
    layers_in_order [of "{''UMDF_VERSION_MAJOR''}"]
  by simp

subsection \<open>The declaration of \<open>KGDTENTRY64\<close>\<close>

text \<open>
  Claim C7. When \<open>UMDF_VERSION_MAJOR\<close> is not defined, the output defines \<open>KGDTENTRY64\<close>
  as the union of the header, whose members are, in order, \<open>LimitLow\<close>, \<open>BaseLow\<close>, the
  view \<open>Bytes\<close> of four whole bytes (\<open>BaseMiddle\<close>, \<open>Flags1\<close>, \<open>Flags2\<close>, \<open>BaseHigh\<close>), the
  view \<open>Bits\<close> of ten bit-fields (\<open>BaseMiddle:8\<close>, \<open>Type:5\<close>, \<open>Dpl:2\<close>, \<open>Present:1\<close>,
  \<open>LimitHigh:4\<close>, \<open>System:1\<close>, \<open>LongMode:1\<close>, \<open>DefaultBig:1\<close>, \<open>Granularity:1\<close>,
  \<open>BaseHigh:8\<close>), then \<open>BaseUpper\<close> and \<open>MustBeZero\<close>, and last \<open>Alignment\<close>. The two views
  lie over the same four bytes, at offset 4, and the widths of the bit-fields add up to
  32 bits, the size of \<open>Bytes\<close>.
\<close>

theorem KGDTENTRY64_declared:
  "''UMDF_VERSION_MAJOR'' \<notin> S \<Longrightarrow>
   \<exists>out. preprocess S input_h = Inr out
     \<and> definitions_of ''KGDTENTRY64'' out = [KGDTENTRY64]
     \<and> map fst (fields KGDTENTRY64) =
         [''LimitLow'', ''BaseLow'',
          ''Bytes'', ''Bytes.BaseMiddle'', ''Bytes.Flags1'', ''Bytes.Flags2'',
          ''Bytes.BaseHigh'',
          ''Bits'', ''Bits.BaseMiddle'', ''Bits.Type'', ''Bits.Dpl'', ''Bits.Present'',
          ''Bits.LimitHigh'', ''Bits.System'', ''Bits.LongMode'', ''Bits.DefaultBig'',
          ''Bits.Granularity'', ''Bits.BaseHigh'',
          ''BaseUpper'', ''MustBeZero'', ''Alignment'']
     \<and> map_option bit_fields (member_type ''Bytes'' KGDTENTRY64) = Some []
     \<and> map_option bit_fields (member_type ''Bits'' KGDTENTRY64) =
         Some [(UnsignedLong, ''BaseMiddle'', 8), (UnsignedLong, ''Type'', 5),
               (UnsignedLong, ''Dpl'', 2), (UnsignedLong, ''Present'', 1),
               (UnsignedLong, ''LimitHigh'', 4), (UnsignedLong, ''System'', 1),
               (UnsignedLong, ''LongMode'', 1), (UnsignedLong, ''DefaultBig'', 1),
               (UnsignedLong, ''Granularity'', 1), (UnsignedLong, ''BaseHigh'', 8)]
     \<and> map_option (sum_list \<circ> map (snd \<circ> snd) \<circ> bit_fields)
           (member_type ''Bits'' KGDTENTRY64) = Some 32
     \<and> map_option sizeof (member_type ''Bytes'' KGDTENTRY64) = Some 4
     \<and> map_option sizeof (member_type ''Bits'' KGDTENTRY64) = Some 4
     \<and> map_of (fields KGDTENTRY64) ''Bytes'' = Some (4, 0, 32)
     \<and> map_of (fields KGDTENTRY64) ''Bits'' = Some (4, 0, 32)"
  by (simp add: preprocess_input_h fields_def layout_KGDTENTRY64 Bytes_KGDTENTRY64
      Bits_KGDTENTRY64 sizeof_def layout_defs)

text \<open>The theorem with no symbol defined.\<close>

theorem KGDTENTRY64_declared_witness:
  "''UMDF_VERSION_MAJOR'' \<notin> {}
   \<and> (\<exists>out. preprocess {} input_h = Inr out
     \<and> definitions_of ''KGDTENTRY64'' out = [KGDTENTRY64]
     \<and> map_option (sum_list \<circ> map (snd \<circ> snd) \<circ> bit_fields)
           (member_type ''Bits'' KGDTENTRY64) = Some 32
     \<and> map_option sizeof (member_type ''Bytes'' KGDTENTRY64) = Some 4
     \<and> map_of (fields KGDTENTRY64) ''Bytes'' = Some (4, 0, 32)
     \<and> map_of (fields KGDTENTRY64) ''Bits'' = Some (4, 0, 32))"
  using KGDTENTRY64_declared [of "{}"] by auto

subsection \<open>The declaration of \<open>KIDTENTRY64\<close>\<close>

text \<open>
  Claim C8, as the code has it. When \<open>UMDF_VERSION_MAJOR\<close> is not defined, the output
  defines \<open>KIDTENTRY64\<close> as the union of the header, whose members are, in order,
  \<open>OffsetLow\<close>, \<open>Selector\<close>, the bit-fields \<open>IstIndex:3\<close>, \<open>Reserved0:5\<close>, \<open>Type:5\<close>, \<open>Dpl:2\<close>
  and \<open>Present:1\<close>, then \<open>OffsetMiddle\<close>, \<open>OffsetHigh\<close> and \<open>Reserved1\<close>, and last the
  64-bit member \<open>Alignment\<close>. The union has 16 bytes. \<open>Alignment\<close> is at offset 0 and lies
  over its first 8 bytes, which hold \<open>OffsetLow\<close>, \<open>Selector\<close>, the five bit-fields and
  \<open>OffsetMiddle\<close>; it does not lie over \<open>OffsetHigh\<close> and \<open>Reserved1\<close>, which take the
  bytes 8 to 15.
\<close>

theorem KIDTENTRY64_declared:
  "''UMDF_VERSION_MAJOR'' \<notin> S \<Longrightarrow>
   \<exists>out. preprocess S input_h = Inr out
     \<and> definitions_of ''KIDTENTRY64'' out = [KIDTENTRY64]
     \<and> map fst (fields KIDTENTRY64) =
         [''OffsetLow'', ''Selector'',
          ''IstIndex'', ''Reserved0'', ''Type'', ''Dpl'', ''Present'',
          ''OffsetMiddle'', ''OffsetHigh'', ''Reserved1'', ''Alignment'']
     \<and> map (\<lambda>n. member_type n KIDTENTRY64)
           [''OffsetLow'', ''Selector'', ''OffsetMiddle'', ''OffsetHigh'', ''Reserved1'',
            ''Alignment''] =
         [Some (Base UnsignedShort), Some (Base UnsignedShort), Some (Base UnsignedShort),
          Some (Base UnsignedLong), Some (Base UnsignedLong), Some (Base UnsignedInt64)]
     \<and> map snd (bit_fields KIDTENTRY64) =
         [(''IstIndex'', 3), (''Reserved0'', 5), (''Type'', 5), (''Dpl'', 2), (''Present'', 1)]
     \<and> map_of (fields KIDTENTRY64) ''Alignment'' = Some (0, 0, 64)
     \<and> sizeof KIDTENTRY64 = 16
     \<and> fields KIDTENTRY64 =
         [(''OffsetLow'', 0, 0, 16), (''Selector'', 2, 0, 16),
          (''IstIndex'', 4, 0, 3), (''Reserved0'', 4, 3, 5), (''Type'', 4, 8, 5),
          (''Dpl'', 4, 13, 2), (''Present'', 4, 15, 1),
          (''OffsetMiddle'', 6, 0, 16), (''OffsetHigh'', 8, 0, 32),
          (''Reserved1'', 12, 0, 32), (''Alignment'', 0, 0, 64)]
     \<and> map fst (filter (lies_over (''Alignment'', 0, 0, 64)) (fields KIDTENTRY64)) =
         [''OffsetLow'', ''Selector'',
          ''IstIndex'', ''Reserved0'', ''Type'', ''Dpl'', ''Present'',
          ''OffsetMiddle'', ''Alignment'']
     \<and> map fst (filter (\<lambda>p. \<not> lies_over (''Alignment'', 0, 0, 64) p) (fields KIDTENTRY64)) =
         [''OffsetHigh'', ''Reserved1'']"
  by (simp add: preprocess_input_h fields_def layout_KIDTENTRY64 sizeof_KIDTENTRY64
      lies_over_def bit_range_def)
    (simp add: KIDTENTRY64_def)

text \<open>The theorem for a kernel-mode framework driver.\<close>

theorem KIDTENTRY64_declared_witness:
  "''UMDF_VERSION_MAJOR'' \<notin> {''KMDF_VERSION_MAJOR''}
   \<and> (\<exists>out. preprocess {''KMDF_VERSION_MAJOR''} input_h = Inr out
     \<and> definitions_of ''KIDTENTRY64'' out = [KIDTENTRY64]
     \<and> map snd (bit_fields KIDTENTRY64) =
         [(''IstIndex'', 3), (''Reserved0'', 5), (''Type'', 5), (''Dpl'', 2), (''Present'', 1)]
     \<and> map_of (fields KIDTENTRY64) ''Alignment'' = Some (0, 0, 64)
     \<and> sizeof KIDTENTRY64 = 16
     \<and> map fst (filter (\<lambda>p. \<not> lies_over (''Alignment'', 0, 0, 64) p) (fields KIDTENTRY64)) =
         [''OffsetHigh'', ''Reserved1''])"
  using KIDTENTRY64_declared [of "{''KMDF_VERSION_MAJOR''}"] by auto

text \<open>
  With no symbol defined \<open>KIDTENTRY64\<close> is declared, and its 64-bit member \<open>Alignment\<close> is
  not laid over the whole union: the union has 128 bits, and \<open>OffsetHigh\<close> and \<open>Reserved1\<close>
  take the bits from 64 to 128, none of which is a bit of \<open>Alignment\<close>.
\<close>

theorem KIDTENTRY64_Alignment_not_over_all:
  "preprocess {} input_h =
     Inr [Include Quoted ''ntifs.h'', Include Quoted ''ntddk.h'',
          TypedefUnion ''_KGDTENTRY64'' KGDTENTRY64
            [Name ''KGDTENTRY64'', PointerTo ''PKGDTENTRY64''],
          TypedefUnion ''_KIDTENTRY64'' KIDTENTRY64
            [Name ''KIDTENTRY64'', PointerTo ''PKIDTENTRY64'']]
   \<and> map_of (fields KIDTENTRY64) ''Alignment'' = Some (0, 0, 64)
   \<and> 8 * sizeof KIDTENTRY64 = 128
   \<and> map_of (fields KIDTENTRY64) ''OffsetHigh'' = Some (8, 0, 32)
   \<and> map_of (fields KIDTENTRY64) ''Reserved1'' = Some (12, 0, 32)
   \<and> \<not> lies_over (''Alignment'', 0, 0, 64) (''OffsetHigh'', 8, 0, 32)
   \<and> \<not> lies_over (''Alignment'', 0, 0, 64) (''Reserved1'', 12, 0, 32)
   \<and> \<not> list_all (lies_over (''Alignment'', 0, 0, 64)) (fields KIDTENTRY64)"
  by (simp add: preprocess_input_h fields_def layout_KIDTENTRY64 sizeof_KIDTENTRY64
      lies_over_def bit_range_def)

subsection \<open>Both symbols defined\<close>

text \<open>
  Claim C9. Preprocessing the header never stops with an error. When
  \<open>UMDF_VERSION_MAJOR\<close> is defined, the output is \<open>windows.h\<close> followed by \<open>wdf.h\<close> whether
  \<open>KMDF_VERSION_MAJOR\<close> is defined as well or not: the header does not reject the
  configuration in which both symbols are defined.
\<close>

theorem KMDF_ignored_under_UMDF:
  "(\<exists>out. preprocess S input_h = Inr out)
   \<and> (''UMDF_VERSION_MAJOR'' \<in> S \<longrightarrow>
        preprocess (insert ''KMDF_VERSION_MAJOR'' S) input_h
          = Inr [Include Angle ''windows.h'', Include Angle ''wdf.h'']
        \<and> preprocess (S - {''KMDF_VERSION_MAJOR''}) input_h
          = Inr [Include Angle ''windows.h'', Include Angle ''wdf.h''])"
  by (simp add: preprocess_input_h)

text \<open>The theorem where only \<open>UMDF_VERSION_MAJOR\<close> is defined to begin with.\<close>

theorem KMDF_ignored_under_UMDF_witness:
  "''UMDF_VERSION_MAJOR'' \<in> {''UMDF_VERSION_MAJOR''}
   \<and> preprocess {''KMDF_VERSION_MAJOR'', ''UMDF_VERSION_MAJOR''} input_h
       = Inr [Include Angle ''windows.h'', Include Angle ''wdf.h'']
   \<and> preprocess ({''UMDF_VERSION_MAJOR''} - {''KMDF_VERSION_MAJOR''}) input_h
       = Inr [Include Angle ''windows.h'', Include Angle ''wdf.h'']"
  using KMDF_ignored_under_UMDF [of "{''UMDF_VERSION_MAJOR''}"] by simp

subsection \<open>The bit-fields of \<open>KIDTENTRY64\<close>\<close>

text \<open>
  Claim C10. The five bit-fields of \<open>KIDTENTRY64\<close> (\<open>IstIndex:3\<close>, \<open>Reserved0:5\<close>, \<open>Type:5\<close>,
  \<open>Dpl:2\<close>, \<open>Present:1\<close>) are all declared \<open>unsigned short\<close> and their widths add up to 16
  bits. They share one 16-bit storage unit, at byte offset 4, where they take the bits
  from 0, 3, 8, 13 and 15 on, and \<open>OffsetMiddle\<close> begins at byte offset 6.
\<close>

theorem KIDTENTRY64_bit_fields:
  "bit_fields KIDTENTRY64 =
     [(UnsignedShort, ''IstIndex'', 3), (UnsignedShort, ''Reserved0'', 5),
      (UnsignedShort, ''Type'', 5), (UnsignedShort, ''Dpl'', 2),
      (UnsignedShort, ''Present'', 1)]
   \<and> sum_list (map (snd \<circ> snd) (bit_fields KIDTENTRY64)) = 16
   \<and> 8 * sizeof_base UnsignedShort = 16
   \<and> map (map_of (fields KIDTENTRY64))
         [''IstIndex'', ''Reserved0'', ''Type'', ''Dpl'', ''Present''] =
       [Some (4, 0, 3), Some (4, 3, 5), Some (4, 8, 5), Some (4, 13, 2), Some (4, 15, 1)]
   \<and> map_of (fields KIDTENTRY64) ''OffsetMiddle'' = Some (6, 0, 16)"
  by (simp add: fields_def layout_KIDTENTRY64) (simp add: KIDTENTRY64_def)


end
